theory Spec2Isabelle
  imports Complex_Main "HOL-Library.Multiset"
begin

section \<open>The persisted data\<close>

text \<open>
  The program is a survey administration system whose state lives in a PostgreSQL
  database; \<^verbatim>\<open>database.py\<close> issues SQL statements against it and the view modules
  call these functions. The model keeps every table as the list of its rows and gives
  each SQL statement of the source the effect it has on these lists.

  The table declarations are not part of the source files. Rows therefore carry the
  columns the statements mention, a table holds whatever the statements put there, and
  no key, uniqueness or foreign-key rule of the store is built in: where a theorem
  needs one (identifiers are unique, a sequence is ahead of the identifiers in use) it
  says so as a hypothesis. Identifier columns that no \<^verbatim>\<open>INSERT\<close> supplies are filled
  from a per-table sequence, kept in the state beside the tables.

  A timestamp is a calendar day and a time within that day; the cast
  \<^verbatim>\<open>submission_date::date\<close> keeps the day. The clock reading (\<^verbatim>\<open>NOW()\<close>,
  \<^verbatim>\<open>CURRENT_DATE\<close>) is an argument of the operations that use it.
\<close>

type_synonym timestamp = "nat \<times> nat"

definition to_date :: "timestamp \<Rightarrow> nat" where
  "to_date ts = fst ts"

record governorate_row =
  g_governorate_id :: nat
  g_governorate_name :: string
  g_description :: string

record health_admin_row =
  ha_admin_id :: nat
  ha_admin_name :: string
  ha_description :: string
  ha_governorate_id :: nat

record user_row =
  u_user_id :: nat
  u_username :: string
  u_role :: string
  u_assigned_region :: "nat option"

record survey_row =
  s_survey_id :: nat
  s_survey_name :: string
  s_created_at :: timestamp
  s_is_active :: bool

text \<open>
  \<^verbatim>\<open>field_options\<close> holds \<^verbatim>\<open>json.dumps\<close> of a list of strings, or NULL; the column is
  modelled by the list the JSON text encodes.
\<close>

record survey_field_row =
  sf_field_id :: nat
  sf_survey_id :: nat
  sf_field_label :: string
  sf_field_type :: string
  sf_field_options :: "string list option"
  sf_is_required :: bool
  sf_field_order :: nat

record response_row =
  r_response_id :: nat
  r_survey_id :: nat
  r_user_id :: nat
  r_region_id :: nat
  r_is_completed :: bool
  r_submission_date :: timestamp

record response_detail_row =
  rd_detail_id :: nat
  rd_response_id :: nat
  rd_field_id :: nat
  rd_answer_value :: string

record audit_row =
  al_log_id :: nat
  al_user_id :: nat
  al_action_type :: string
  al_table_name :: string
  al_record_id :: "nat option"
  al_old_value :: "string option"
  al_new_value :: "string option"
  al_action_timestamp :: timestamp

text \<open>
  \<^verbatim>\<open>SurveyGovernorate\<close> rows are pairs (survey id, governorate id) and
  \<^verbatim>\<open>UserSurveys\<close> rows are pairs (user id, survey id). \<open>online\<close> says whether
  \<^verbatim>\<open>get_db_connection\<close> yields a connection; it returns \<^verbatim>\<open>None\<close> otherwise.
  Every function of database.py opens a connection of its own, so the flag is the
  outcome of the attempt of the call at hand; where a property depends on two calls
  meeting different outcomes, the outcome of the later attempt is an argument.
\<close>

record database =
  online :: bool
  Governorates :: "governorate_row list"
  HealthAdministrations :: "health_admin_row list"
  Users :: "user_row list"
  Surveys :: "survey_row list"
  Survey_Fields :: "survey_field_row list"
  SurveyGovernorate :: "(nat \<times> nat) list"
  UserSurveys :: "(nat \<times> nat) list"
  Responses :: "response_row list"
  Response_Details :: "response_detail_row list"
  AuditLog :: "audit_row list"
  next_governorate_id :: nat
  next_field_id :: nat
  next_response_id :: nat
  next_detail_id :: nat
  next_log_id :: nat

section \<open>Scope resolver\<close>

text \<open>
  \<^verbatim>\<open>get_allowed_surveys\<close>: the join of Users, HealthAdministrations, SurveyGovernorate
  and Surveys, restricted to the user and to active surveys. A NULL
  \<^verbatim>\<open>assigned_region\<close> joins with no administration. When the query cannot run,
  \<^verbatim>\<open>execute_query\<close> returns \<^verbatim>\<open>None\<close> and the function returns the empty list.
\<close>

definition get_allowed_surveys :: "database \<Rightarrow> nat \<Rightarrow> (nat \<times> string) list" where
  "get_allowed_surveys db user_id =
     (if \<not> online db then []
      else [(s_survey_id s, s_survey_name s).
              u \<leftarrow> Users db, u_user_id u = user_id,
              ha \<leftarrow> HealthAdministrations db, u_assigned_region u = Some (ha_admin_id ha),
              sg \<leftarrow> SurveyGovernorate db, ha_governorate_id ha = snd sg,
              s \<leftarrow> Surveys db, fst sg = s_survey_id s, s_is_active s])"

text \<open>\<^verbatim>\<open>get_user_allowed_surveys\<close>: the join of UserSurveys and Surveys for the user.\<close>

definition get_user_allowed_surveys :: "database \<Rightarrow> nat \<Rightarrow> (nat \<times> string) list" where
  "get_user_allowed_surveys db user_id =
     (if \<not> online db then []
      else [(s_survey_id s, s_survey_name s).
              us \<leftarrow> UserSurveys db, fst us = user_id,
              s \<leftarrow> Surveys db, snd us = s_survey_id s])"

text \<open>
  \<^verbatim>\<open>update_user_allowed_surveys\<close>: in one transaction, delete the user's rows of
  UserSurveys, then insert one row per submitted survey id.
\<close>

definition update_user_allowed_surveys ::
    "database \<Rightarrow> nat \<Rightarrow> nat list \<Rightarrow> bool \<times> database" where
  "update_user_allowed_surveys db user_id survey_ids =
     (if \<not> online db then (False, db)
      else (True,
            db\<lparr>UserSurveys :=
                 filter (\<lambda>us. fst us \<noteq> user_id) (UserSurveys db)
                 @ map (\<lambda>survey_id. (user_id, survey_id)) survey_ids\<rparr>))"

text \<open>
  \<^verbatim>\<open>get_employee_region_info\<close> (employee\_views.py): the administration with the given
  id joined with its governorate; the first row, or \<^verbatim>\<open>None\<close>.
\<close>

definition get_employee_region_info ::
    "database \<Rightarrow> nat \<Rightarrow> (nat \<times> string \<times> string \<times> nat) option" where
  "get_employee_region_info db region_id =
     (if \<not> online db then None
      else case [(ha_admin_id ha, ha_admin_name ha, g_governorate_name g, g_governorate_id g).
                   ha \<leftarrow> HealthAdministrations db,
                   g \<leftarrow> Governorates db, ha_governorate_id ha = g_governorate_id g,
                   ha_admin_id ha = region_id] of
             [] \<Rightarrow> None
           | row # _ \<Rightarrow> Some row)"

text \<open>
  \<^verbatim>\<open>show_employee_dashboard\<close>: the session holds the user's id and region id. The page
  stops when the session has no region (\<^verbatim>\<open>None\<close> or 0 are both falsy), when the region
  is not found, or when the listing is empty; otherwise the surveys offered for selection
  are those of \<^verbatim>\<open>get_allowed_surveys\<close>.
\<close>

datatype dashboard = NoRegion | RegionNotFound | NoSurveys | SurveyList "(nat \<times> string) list"

definition show_employee_dashboard :: "database \<Rightarrow> nat \<Rightarrow> nat option \<Rightarrow> dashboard" where
  "show_employee_dashboard db session_user_id session_region_id =
     (case session_region_id of
        None \<Rightarrow> NoRegion
      | Some region_id \<Rightarrow>
          if region_id = 0 then NoRegion
          else (case get_employee_region_info db region_id of
                  None \<Rightarrow> RegionNotFound
                | Some region_info \<Rightarrow>
                    (let allowed_surveys = get_allowed_surveys db session_user_id
                     in if allowed_surveys = [] then NoSurveys
                        else SurveyList allowed_surveys)))"

section \<open>Response engine\<close>

text \<open>
  The value a form widget returns (\<^verbatim>\<open>render_field\<close>): a string for text and dropdown
  fields, a number, a boolean for a checkbox, a date, or \<^verbatim>\<open>None\<close> (unknown field type,
  dropdown without options). \<open>truthy\<close> is Python's truth value of it. The answers of a
  form are a dict from field id to value, kept as its items in insertion order;
  \<^verbatim>\<open>answers.get(k)\<close> is \<^verbatim>\<open>None\<close> for a missing key.
\<close>

datatype answer = AText string | ANumber real | ABool bool | ADate nat | ANone

fun truthy :: "answer \<Rightarrow> bool" where
  "truthy (AText s) = (s \<noteq> [])"
| "truthy (ANumber x) = (x \<noteq> 0)"
| "truthy (ABool b) = b"
| "truthy (ADate d) = True"
| "truthy ANone = False"

definition answers_get :: "(nat \<times> answer) list \<Rightarrow> nat \<Rightarrow> answer" where
  "answers_get answers field_id =
     (case map_of answers field_id of None \<Rightarrow> ANone | Some a \<Rightarrow> a)"

text \<open>
  A field as \<^verbatim>\<open>get_survey_fields\<close> returns it:
  (field id, label, type, options, required, order).
\<close>

type_synonym field_tuple = "nat \<times> string \<times> string \<times> string list option \<times> bool \<times> nat"

fun check_required_fields :: "field_tuple list \<Rightarrow> (nat \<times> answer) list \<Rightarrow> string list" where
  "check_required_fields [] answers = []"
| "check_required_fields ((field_id, label, field_type, options, is_required, field_order) # flds)
       answers =
     (if is_required \<and> \<not> truthy (answers_get answers field_id)
      then label # check_required_fields flds answers
      else check_required_fields flds answers)"

text \<open>
  \<^verbatim>\<open>has_completed_survey_today\<close>: whether the query for a completed response of the
  user and survey dated today returns a row; \<^verbatim>\<open>bool(None)\<close> is false when the query
  cannot run.
\<close>

definition has_completed_survey_today :: "database \<Rightarrow> timestamp \<Rightarrow> nat \<Rightarrow> nat \<Rightarrow> bool" where
  "has_completed_survey_today db now user_id survey_id =
     (online db \<and>
      filter (\<lambda>r. r_user_id r = user_id \<and> r_survey_id r = survey_id \<and> r_is_completed r
                   \<and> to_date (r_submission_date r) = to_date now)
             (Responses db) \<noteq> [])"

text \<open>Python exceptions that a modelled function raises and does not catch.\<close>

datatype py_error = TypeError

text \<open>
  \<^verbatim>\<open>save_response\<close> calls \<^verbatim>\<open>execute_query\<close> with \<^verbatim>\<open>fetch_one\<close> and \<^verbatim>\<open>commit\<close> both
  set. The commit branch of \<^verbatim>\<open>execute_query\<close> comes first: it commits the
  \<^verbatim>\<open>INSERT\<close> and returns \<^verbatim>\<open>True\<close>, and \<^verbatim>\<open>result['response_id']\<close> on a boolean
  raises \<^verbatim>\<open>TypeError\<close>, the row being committed already. Without a connection
  \<^verbatim>\<open>execute_query\<close> returns \<^verbatim>\<open>None\<close> and so does \<^verbatim>\<open>save_response\<close>. It never
  returns an id.
\<close>

definition save_response ::
    "database \<Rightarrow> timestamp \<Rightarrow> nat \<Rightarrow> nat \<Rightarrow> nat \<Rightarrow> bool
       \<Rightarrow> (py_error + nat option) \<times> database" where
  "save_response db now survey_id user_id region_id is_completed =
     (if \<not> online db then (Inr None, db)
      else (Inl TypeError,
            db\<lparr>Responses := Responses db @
                  [\<lparr>r_response_id = next_response_id db, r_survey_id = survey_id,
                    r_user_id = user_id, r_region_id = region_id,
                    r_is_completed = is_completed, r_submission_date = now\<rparr>],
               next_response_id := Suc (next_response_id db)\<rparr>))"

definition save_response_detail :: "database \<Rightarrow> nat \<Rightarrow> nat \<Rightarrow> string \<Rightarrow> bool \<times> database" where
  "save_response_detail db response_id field_id answer_value =
     (if \<not> online db then (False, db)
      else (True,
            db\<lparr>Response_Details := Response_Details db @
                  [\<lparr>rd_detail_id = next_detail_id db, rd_response_id = response_id,
                    rd_field_id = field_id, rd_answer_value = answer_value\<rparr>],
               next_detail_id := Suc (next_detail_id db)\<rparr>))"

text \<open>
  \<^verbatim>\<open>save_response_details\<close>: one detail per answer that is not \<^verbatim>\<open>None\<close>, holding
  \<^verbatim>\<open>str(answer)\<close>. Python's \<^verbatim>\<open>str\<close> is the parameter \<open>py_str\<close>.
\<close>

fun save_response_details ::
    "(answer \<Rightarrow> string) \<Rightarrow> database \<Rightarrow> nat \<Rightarrow> (nat \<times> answer) list \<Rightarrow> database" where
  "save_response_details py_str db response_id [] = db"
| "save_response_details py_str db response_id ((field_id, answer) # answers) =
     (if answer \<noteq> ANone
      then save_response_details py_str
             (snd (save_response_detail db response_id field_id (py_str answer)))
             response_id answers
      else save_response_details py_str db response_id answers)"

text \<open>
  \<^verbatim>\<open>process_survey_submission\<close>: the outcome is the message shown, or the exception
  that leaves the function. Missing required fields are checked first and reported by
  label; then the once-per-day check, which is made only for a completed submission;
  then \<^verbatim>\<open>save_response\<close>, whose exception is not caught here, and behind it the
  branches for its result (\<^verbatim>\<open>not response_id\<close> holds for \<^verbatim>\<open>None\<close> and for 0) with the
  saving of the details. The once-per-day check runs on the connection and clock of
  \<open>db\<close> and \<open>now\<close>; \<^verbatim>\<open>save_response\<close> is a later call with a connection attempt and a
  clock reading of its own, \<open>save_online\<close> and \<open>now_save\<close>. The user id is read from the
  session; the survey name, used in the messages only, is left out.
\<close>

datatype outcome =
    MissingRequiredFields "string list"
  | AlreadyCompletedToday
  | SaveError
  | Raised py_error
  | Submitted nat
  | DraftSaved nat

definition process_survey_submission ::
    "(answer \<Rightarrow> string) \<Rightarrow> database \<Rightarrow> timestamp \<Rightarrow> bool \<Rightarrow> timestamp \<Rightarrow> nat \<Rightarrow> nat
       \<Rightarrow> nat \<Rightarrow> field_tuple list \<Rightarrow> (nat \<times> answer) list \<Rightarrow> bool
       \<Rightarrow> outcome \<times> database" where
  "process_survey_submission py_str db now save_online now_save session_user_id survey_id
       region_id flds answers is_completed =
     (let missing_fields = check_required_fields flds answers
      in if missing_fields \<noteq> [] \<and> is_completed then (MissingRequiredFields missing_fields, db)
         else if is_completed \<and> has_completed_survey_today db now session_user_id survey_id
         then (AlreadyCompletedToday, db)
         else case save_response (db\<lparr>online := save_online\<rparr>) now_save survey_id
                     session_user_id region_id is_completed of
                (Inl e, db1) \<Rightarrow> (Raised e, db1)
              | (Inr None, db1) \<Rightarrow> (SaveError, db1)
              | (Inr (Some response_id), db1) \<Rightarrow>
                  if response_id = 0 then (SaveError, db1)
                  else (if is_completed then Submitted response_id else DraftSaved response_id,
                        save_response_details py_str db1 response_id answers))"



section \<open>Audit log\<close>



section \<open>Org hierarchy store\<close>


section \<open>Survey schema engine\<close>

text \<open>
  \<^verbatim>\<open>get_survey_fields\<close>: the fields of the survey ordered by \<^verbatim>\<open>field_order\<close>, as
  tuples. Rows with equal order keep their table order here (SQL leaves it open).
\<close>

definition field_tuple_of :: "survey_field_row \<Rightarrow> field_tuple" where
  "field_tuple_of item =
     (sf_field_id item, sf_field_label item, sf_field_type item, sf_field_options item,
      sf_is_required item, sf_field_order item)"

definition get_survey_fields :: "database \<Rightarrow> nat \<Rightarrow> field_tuple list" where
  "get_survey_fields db survey_id =
     (if \<not> online db then []
      else map field_tuple_of
             (sort_key sf_field_order
                (filter (\<lambda>f. sf_survey_id f = survey_id) (Survey_Fields db))))"

text \<open>
  An entry of the target list of \<^verbatim>\<open>update_survey\<close>: a dict with the keys
  \<^verbatim>\<open>field_label\<close> and \<^verbatim>\<open>field_type\<close>, and optionally \<^verbatim>\<open>field_id\<close>,
  \<^verbatim>\<open>field_options\<close> and \<^verbatim>\<open>is_required\<close>.
\<close>

record field_spec =
  fs_field_id :: "nat option"
  fs_field_label :: string
  fs_field_type :: string
  fs_field_options :: "string list option"
  fs_is_required :: "bool option"

text \<open>
  The options written to the row: the submitted list when it is truthy (present and
  not empty), NULL otherwise. \<^verbatim>\<open>field.get('is_required', False)\<close> likewise.
\<close>

definition stored_options :: "field_spec \<Rightarrow> string list option" where
  "stored_options field =
     (case fs_field_options field of
        None \<Rightarrow> None
      | Some opts \<Rightarrow> if opts = [] then None else Some opts)"

definition stored_required :: "field_spec \<Rightarrow> bool" where
  "stored_required field = (case fs_is_required field of None \<Rightarrow> False | Some b \<Rightarrow> b)"

text \<open>
  The loop \<^verbatim>\<open>for i, field in enumerate(fields)\<close> of \<^verbatim>\<open>update_survey\<close>: an entry with
  a field id updates the rows with that id (whatever survey they belong to), an entry
  without one inserts a row for the survey; both write the position \<open>i\<close> as the order.
\<close>

definition updated_row :: "field_spec \<Rightarrow> nat \<Rightarrow> survey_field_row \<Rightarrow> survey_field_row" where
  "updated_row field i f =
     f\<lparr>sf_field_label := fs_field_label field,
       sf_field_type := fs_field_type field,
       sf_field_options := stored_options field,
       sf_is_required := stored_required field,
       sf_field_order := i\<rparr>"

definition inserted_row :: "nat \<Rightarrow> field_spec \<Rightarrow> nat \<Rightarrow> nat \<Rightarrow> survey_field_row" where
  "inserted_row survey_id field i new_id =
     \<lparr>sf_field_id = new_id, sf_survey_id = survey_id,
      sf_field_label = fs_field_label field,
      sf_field_type = fs_field_type field,
      sf_field_options = stored_options field,
      sf_is_required = stored_required field,
      sf_field_order = i\<rparr>"

fun save_fields :: "nat \<Rightarrow> nat \<Rightarrow> field_spec list \<Rightarrow> database \<Rightarrow> database" where
  "save_fields survey_id i [] db = db"
| "save_fields survey_id i (field # flds) db =
     save_fields survey_id (Suc i) flds
       (case fs_field_id field of
          Some field_id \<Rightarrow>
            db\<lparr>Survey_Fields :=
                 map (\<lambda>f. if sf_field_id f = field_id then updated_row field i f else f)
                     (Survey_Fields db)\<rparr>
        | None \<Rightarrow>
            db\<lparr>Survey_Fields := Survey_Fields db @
                  [inserted_row survey_id field i (next_field_id db)],
               next_field_id := Suc (next_field_id db)\<rparr>)"

text \<open>
  \<^verbatim>\<open>update_survey\<close>: update the survey row; delete the survey's fields whose id is not
  carried by the target list (no other condition); run the loop; commit.
\<close>

fun updated_field_ids :: "field_spec list \<Rightarrow> nat list" where
  "updated_field_ids [] = []"
| "updated_field_ids (field # flds) =
     (case fs_field_id field of
        Some field_id \<Rightarrow> field_id # updated_field_ids flds
      | None \<Rightarrow> updated_field_ids flds)"

definition update_survey ::
    "database \<Rightarrow> nat \<Rightarrow> string \<Rightarrow> bool \<Rightarrow> field_spec list \<Rightarrow> bool \<times> database" where
  "update_survey db survey_id survey_name is_active flds =
     (if \<not> online db then (False, db)
      else
        (let db1 = db\<lparr>Surveys :=
                       map (\<lambda>s. if s_survey_id s = survey_id
                                 then s\<lparr>s_survey_name := survey_name, s_is_active := is_active\<rparr>
                                 else s)
                           (Surveys db)\<rparr>;
             existing_field_ids =
               map sf_field_id (filter (\<lambda>f. sf_survey_id f = survey_id) (Survey_Fields db1));
             fields_to_delete =
               filter (\<lambda>k. k \<notin> set (updated_field_ids flds)) existing_field_ids;
             db2 = (if fields_to_delete \<noteq> []
                    then db1\<lparr>Survey_Fields :=
                               filter (\<lambda>f. sf_field_id f \<notin> set fields_to_delete)
                                      (Survey_Fields db1)\<rparr>
                    else db1)
         in (True, save_fields survey_id 0 flds db2)))"

text \<open>
  \<^verbatim>\<open>delete_survey\<close>: five statements in one transaction, in the order of the source.
\<close>

definition delete_response_details_of :: "nat \<Rightarrow> database \<Rightarrow> database" where
  "delete_response_details_of survey_id db =
     db\<lparr>Response_Details :=
          filter (\<lambda>rd. rd_response_id rd \<notin>
                         set (map r_response_id
                                (filter (\<lambda>r. r_survey_id r = survey_id) (Responses db))))
                 (Response_Details db)\<rparr>"

definition delete_responses_of :: "nat \<Rightarrow> database \<Rightarrow> database" where
  "delete_responses_of survey_id db =
     db\<lparr>Responses := filter (\<lambda>r. r_survey_id r \<noteq> survey_id) (Responses db)\<rparr>"

definition delete_survey_fields_of :: "nat \<Rightarrow> database \<Rightarrow> database" where
  "delete_survey_fields_of survey_id db =
     db\<lparr>Survey_Fields := filter (\<lambda>f. sf_survey_id f \<noteq> survey_id) (Survey_Fields db)\<rparr>"

definition delete_survey_governorates_of :: "nat \<Rightarrow> database \<Rightarrow> database" where
  "delete_survey_governorates_of survey_id db =
     db\<lparr>SurveyGovernorate := filter (\<lambda>sg. fst sg \<noteq> survey_id) (SurveyGovernorate db)\<rparr>"

definition delete_survey_row :: "nat \<Rightarrow> database \<Rightarrow> database" where
  "delete_survey_row survey_id db =
     db\<lparr>Surveys := filter (\<lambda>s. s_survey_id s \<noteq> survey_id) (Surveys db)\<rparr>"

definition delete_survey_statements :: "nat \<Rightarrow> (database \<Rightarrow> database) list" where
  "delete_survey_statements survey_id =
     [delete_response_details_of survey_id,
      delete_responses_of survey_id,
      delete_survey_fields_of survey_id,
      delete_survey_governorates_of survey_id,
      delete_survey_row survey_id]"

text \<open>The state after the first \<open>k\<close> statements of the transaction.\<close>

definition delete_survey_after :: "nat \<Rightarrow> nat \<Rightarrow> database \<Rightarrow> database" where
  "delete_survey_after k survey_id db =
     fold (\<lambda>statement. statement) (take k (delete_survey_statements survey_id)) db"

definition delete_survey :: "database \<Rightarrow> nat \<Rightarrow> bool \<times> database" where
  "delete_survey db survey_id =
     (if \<not> online db then (False, db)
      else (True, fold (\<lambda>statement. statement) (delete_survey_statements survey_id) db))"

section \<open>The properties in the words of the specification\<close>

text \<open>
  The notions the visibility rule speaks of: a survey is active; it is linked to the
  governorate the employee derives from its health administration; the employee holds
  a grant (a row of UserSurveys) for it; it is visible (offered by the listing the
  dashboard uses).
\<close>

definition survey_active :: "database \<Rightarrow> nat \<Rightarrow> bool" where
  "survey_active db survey_id =
     list_ex (\<lambda>s. s_survey_id s = survey_id \<and> s_is_active s) (Surveys db)"

definition employee_governorates :: "database \<Rightarrow> nat \<Rightarrow> nat list" where
  "employee_governorates db user_id =
     [ha_governorate_id ha.
        u \<leftarrow> Users db, u_user_id u = user_id,
        ha \<leftarrow> HealthAdministrations db, u_assigned_region u = Some (ha_admin_id ha)]"

definition linked_to_governorate :: "database \<Rightarrow> nat \<Rightarrow> nat \<Rightarrow> bool" where
  "linked_to_governorate db user_id survey_id =
     list_ex (\<lambda>g. (survey_id, g) \<in> set (SurveyGovernorate db)) (employee_governorates db user_id)"

definition holds_grant :: "database \<Rightarrow> nat \<Rightarrow> nat \<Rightarrow> bool" where
  "holds_grant db user_id survey_id = ((user_id, survey_id) \<in> set (UserSurveys db))"

definition visible :: "database \<Rightarrow> nat \<Rightarrow> nat \<Rightarrow> bool" where
  "visible db user_id survey_id = (survey_id \<in> set (map fst (get_allowed_surveys db user_id)))"




text \<open>
  The listing the reconciliation is to produce, read off the target list: entry by
  entry, the carried id or else the next id of the sequence, the submitted label and
  type, the submitted options (none when they are absent or empty), whether the entry
  was submitted as required, and the position as order index.
\<close>

fun target_listing :: "nat \<Rightarrow> nat \<Rightarrow> field_spec list \<Rightarrow> field_tuple list" where
  "target_listing i next_id [] = []"
| "target_listing i next_id (field # flds) =
     (case fs_field_id field of
        Some field_id \<Rightarrow>
          (field_id, fs_field_label field, fs_field_type field,
           (case fs_field_options field of Some (opt # opts) \<Rightarrow> Some (opt # opts) | _ \<Rightarrow> None),
           fs_is_required field = Some True, i)
          # target_listing (Suc i) next_id flds
      | None \<Rightarrow>
          (next_id, fs_field_label field, fs_field_type field,
           (case fs_field_options field of Some (opt # opts) \<Rightarrow> Some (opt # opts) | _ \<Rightarrow> None),
           fs_is_required field = Some True, i)
          # target_listing (Suc i) (Suc next_id) flds)"

text \<open>The same entries as rows of the table, for the survey.\<close>

fun target_rows :: "nat \<Rightarrow> nat \<Rightarrow> nat \<Rightarrow> field_spec list \<Rightarrow> survey_field_row list" where
  "target_rows survey_id i next_id [] = []"
| "target_rows survey_id i next_id (field # flds) =
     (case fs_field_id field of
        Some field_id \<Rightarrow>
          inserted_row survey_id field i field_id # target_rows survey_id (Suc i) next_id flds
      | None \<Rightarrow>
          inserted_row survey_id field i next_id
          # target_rows survey_id (Suc i) (Suc next_id) flds)"

text \<open>
  What the store is expected to keep: field ids are unique and the sequence is ahead
  of them.
\<close>

definition field_ids_wf :: "database \<Rightarrow> bool" where
  "field_ids_wf db =
     (distinct (map sf_field_id (Survey_Fields db)) \<and>
      list_all (\<lambda>f. sf_field_id f < next_field_id db) (Survey_Fields db))"

text \<open>
  The ids carried by the target list are pairwise different and each is the id of a
  current field of the survey.
\<close>

definition target_ids_current :: "database \<Rightarrow> nat \<Rightarrow> field_spec list \<Rightarrow> bool" where
  "target_ids_current db survey_id flds =
     (distinct (updated_field_ids flds) \<and>
      list_all (\<lambda>k. k \<in> set (map sf_field_id
                                (filter (\<lambda>f. sf_survey_id f = survey_id) (Survey_Fields db))))
               (updated_field_ids flds))"

text \<open>The rows of the table that belong to a survey.\<close>

definition rows_of :: "nat \<Rightarrow> database \<Rightarrow> survey_field_row set" where
  "rows_of sid db = {f \<in> set (Survey_Fields db). sf_survey_id f = sid}"

section \<open>A sample store\<close>

text \<open>
  Two governorates, one health administration in the first, one employee bound to it;
  survey 5 is linked to the employee's governorate, survey 6 to the other one and
  granted to the employee by a row of UserSurveys. The employee completed survey 5 on
  day 100; field 10 of survey 5 carries its answer.
\<close>

definition sample_fields :: "survey_field_row list" where
  "sample_fields =
     [\<lparr>sf_field_id = 10, sf_survey_id = 5, sf_field_label = ''A'', sf_field_type = ''text'',
       sf_field_options = None, sf_is_required = True, sf_field_order = 0\<rparr>,
      \<lparr>sf_field_id = 11, sf_survey_id = 5, sf_field_label = ''B'', sf_field_type = ''checkbox'',
       sf_field_options = None, sf_is_required = True, sf_field_order = 1\<rparr>]"

definition sample_db :: database where
  "sample_db =
     \<lparr>online = True,
      Governorates =
        [\<lparr>g_governorate_id = 1, g_governorate_name = ''Cairo'', g_description = ''''\<rparr>,
         \<lparr>g_governorate_id = 2, g_governorate_name = ''Giza'', g_description = ''''\<rparr>],
      HealthAdministrations =
        [\<lparr>ha_admin_id = 1, ha_admin_name = ''Cairo-Central'', ha_description = '''',
          ha_governorate_id = 1\<rparr>],
      Users =
        [\<lparr>u_user_id = 1, u_username = ''u1'', u_role = ''employee'',
          u_assigned_region = Some 1\<rparr>],
      Surveys =
        [\<lparr>s_survey_id = 5, s_survey_name = ''Weekly'', s_created_at = (90, 0),
          s_is_active = True\<rparr>,
         \<lparr>s_survey_id = 6, s_survey_name = ''Other'', s_created_at = (91, 0),
          s_is_active = True\<rparr>],
      Survey_Fields = sample_fields,
      SurveyGovernorate = [(5, 1), (6, 2)],
      UserSurveys = [(1, 6)],
      Responses =
        [\<lparr>r_response_id = 1, r_survey_id = 5, r_user_id = 1, r_region_id = 1,
          r_is_completed = True, r_submission_date = (100, 30)\<rparr>],
      Response_Details =
        [\<lparr>rd_detail_id = 1, rd_response_id = 1, rd_field_id = 10, rd_answer_value = ''x''\<rparr>],
      AuditLog = [],
      next_governorate_id = 3,
      next_field_id = 12,
      next_response_id = 2,
      next_detail_id = 2,
      next_log_id = 1\<rparr>"

text \<open>The fields of survey 5 as the form receives them.\<close>

definition sample_form :: "field_tuple list" where
  "sample_form =
     [(10, ''A'', ''text'', None, True, 0), (11, ''B'', ''checkbox'', None, True, 1)]"

text \<open>
  A target list for survey 5: field 11 first, with a new label, then a new dropdown
  field; field 10 is left out.
\<close>

definition sample_target :: "field_spec list" where
  "sample_target =
     [\<lparr>fs_field_id = Some 11, fs_field_label = ''B2'', fs_field_type = ''checkbox'',
       fs_field_options = None, fs_is_required = Some False\<rparr>,
      \<lparr>fs_field_id = None, fs_field_label = ''C'', fs_field_type = ''dropdown'',
       fs_field_options = Some [''yes'', ''no''], fs_is_required = None\<rparr>]"

text \<open>
  A second target list for survey 5: field 11 first, relabelled and no longer required,
  then a new required dropdown field, then field 10 with an empty list of options and
  no required flag.
\<close>

definition sample_reorder :: "field_spec list" where
  "sample_reorder =
     [\<lparr>fs_field_id = Some 11, fs_field_label = ''B2'', fs_field_type = ''checkbox'',
       fs_field_options = None, fs_is_required = Some False\<rparr>,
      \<lparr>fs_field_id = None, fs_field_label = ''C'', fs_field_type = ''dropdown'',
       fs_field_options = Some [''yes'', ''no''], fs_is_required = Some True\<rparr>,
      \<lparr>fs_field_id = Some 10, fs_field_label = ''A'', fs_field_type = ''text'',
       fs_field_options = Some [], fs_is_required = None\<rparr>]"

text \<open>A target list whose only entry carries an id that no field has.\<close>

definition sample_stale :: "field_spec list" where
  "sample_stale =
     [\<lparr>fs_field_id = Some 99, fs_field_label = ''X'', fs_field_type = ''text'',
       fs_field_options = None, fs_is_required = Some True\<rparr>]"

text \<open>A rendering of answers for the sample theorems; the theorems hold for any.\<close>

fun sample_str :: "answer \<Rightarrow> string" where
  "sample_str (AText s) = s"
| "sample_str (ABool b) = (if b then ''True'' else ''False'')"
| "sample_str _ = ''''"


section \<open>Grants are replaced wholesale\<close>

lemma join_other_users:
  "concat (map (\<lambda>us. if fst us = uid then F us else []) (filter (\<lambda>us. fst us \<noteq> uid) xs)) = []"
  by (induction xs) auto

lemma join_kept:
  "other \<noteq> uid \<Longrightarrow>
   concat (map (\<lambda>us. if fst us = other then F us else []) (filter (\<lambda>us. fst us \<noteq> uid) xs))
   = concat (map (\<lambda>us. if fst us = other then F us else []) xs)"
  by (induction xs) auto

lemma granted_ids:
  "set (map fst [(s_survey_id s, s_survey_name s). k \<leftarrow> ks, s \<leftarrow> ys, k = s_survey_id s])
   = set ks \<inter> set (map s_survey_id ys)"
  by force

text \<open>
  Claim C10. After \<^verbatim>\<open>update_user_allowed_surveys(u, S)\<close> has succeeded,
  \<^verbatim>\<open>get_user_allowed_surveys(u)\<close> returns exactly the surveys whose id is in \<open>S\<close>,
  whatever the user was granted before: the user's earlier rows of UserSurveys are all
  deleted and one row per element of \<open>S\<close> is inserted. The grants of every other user
  are as they were.
\<close>

theorem grants_replaced_wholesale:
  assumes "update_user_allowed_surveys db user_id survey_ids = (True, db')"
  shows "get_user_allowed_surveys db' user_id
           = [(s_survey_id s, s_survey_name s).
                k \<leftarrow> survey_ids, s \<leftarrow> Surveys db, k = s_survey_id s]
         \<and> set (map fst (get_user_allowed_surveys db' user_id))
           = set survey_ids \<inter> set (map s_survey_id (Surveys db))
         \<and> UserSurveys db'
           = filter (\<lambda>us. fst us \<noteq> user_id) (UserSurveys db)
             @ map (\<lambda>k. (user_id, k)) survey_ids
         \<and> (\<forall>other. other \<noteq> user_id \<longrightarrow>
               get_user_allowed_surveys db' other = get_user_allowed_surveys db other)"
proof -
  from assms have on: "online db"
    and db': "db' = db\<lparr>UserSurveys :=
                 filter (\<lambda>us. fst us \<noteq> user_id) (UserSurveys db)
                 @ map (\<lambda>k. (user_id, k)) survey_ids\<rparr>"
    by (auto simp: update_user_allowed_surveys_def split: if_splits)
  have listing: "get_user_allowed_surveys db' user_id
           = [(s_survey_id s, s_survey_name s).
                k \<leftarrow> survey_ids, s \<leftarrow> Surveys db, k = s_survey_id s]"
    using on by (simp add: db' get_user_allowed_surveys_def join_other_users o_def cong: if_cong)
  have ids: "set (map fst (get_user_allowed_surveys db' user_id))
           = set survey_ids \<inter> set (map s_survey_id (Surveys db))"
    unfolding listing by (rule granted_ids)
  have others: "get_user_allowed_surveys db' other = get_user_allowed_surveys db other"
    if "other \<noteq> user_id" for other
    using on that
    by (simp add: db' get_user_allowed_surveys_def join_kept o_def cong: if_cong)
  show ?thesis using listing ids others by (simp add: db')
qed

text \<open>
  In the sample store the employee holds a grant for survey 6; after the grants are
  set to survey 5 alone, survey 5 is the whole listing.
\<close>

theorem grants_replaced_wholesale_witness:
  "fst (update_user_allowed_surveys sample_db 1 [5])
   \<and> get_user_allowed_surveys sample_db 1 = [(6, ''Other'')]
   \<and> get_user_allowed_surveys (snd (update_user_allowed_surveys sample_db 1 [5])) 1
       = [(5, ''Weekly'')]"
proof -
  have h: "update_user_allowed_surveys sample_db 1 [5]
           = (True, snd (update_user_allowed_surveys sample_db 1 [5]))"
    by (simp add: update_user_allowed_surveys_def sample_db_def)
  from grants_replaced_wholesale [OF h] show ?thesis
    by (simp add: update_user_allowed_surveys_def get_user_allowed_surveys_def sample_db_def)
qed

section \<open>Which surveys an employee sees\<close>

lemma visible_iff:
  "online db \<Longrightarrow>
   visible db user_id survey_id \<longleftrightarrow>
     survey_active db survey_id \<and> linked_to_governorate db user_id survey_id"
  unfolding visible_def survey_active_def linked_to_governorate_def employee_governorates_def
    get_allowed_surveys_def list_ex_iff
  by (force simp: image_iff split: if_splits)

lemma granted_iff:
  "online db \<Longrightarrow>
   survey_id \<in> set (map fst (get_user_allowed_surveys db user_id)) \<longleftrightarrow>
     holds_grant db user_id survey_id \<and> survey_id \<in> set (map s_survey_id (Surveys db))"
  unfolding holds_grant_def get_user_allowed_surveys_def
  by (force simp: image_iff split: if_splits)

lemma dashboard_listing:
  "show_employee_dashboard db user_id region = SurveyList listing \<Longrightarrow>
   listing = get_allowed_surveys db user_id"
  by (auto simp: show_employee_dashboard_def Let_def split: option.splits if_splits)

lemma listing_ignores_grants:
  "get_allowed_surveys (db\<lparr>UserSurveys := grants\<rparr>) user_id = get_allowed_surveys db user_id"
  by (simp add: get_allowed_surveys_def cong: if_cong)

text \<open>
  Claim C1, as amended. The listing the employee dashboard uses is
  \<^verbatim>\<open>get_allowed_surveys\<close>: a survey is visible to a user exactly when it is active and
  linked to the governorate of the user's health administration. The rows of UserSurveys
  play no part in it. Grants are returned by the separate listing
  \<^verbatim>\<open>get_user_allowed_surveys\<close>, for every granted survey that exists, active or not;
  the dashboard shows the first listing only.
\<close>

theorem employee_visibility:
  "(online db \<longrightarrow>
      (visible db user_id survey_id \<longleftrightarrow>
         survey_active db survey_id \<and> linked_to_governorate db user_id survey_id))
   \<and> get_allowed_surveys (db\<lparr>UserSurveys := grants\<rparr>) user_id = get_allowed_surveys db user_id
   \<and> (show_employee_dashboard db user_id region = SurveyList listing \<longrightarrow>
        listing = get_allowed_surveys db user_id)
   \<and> (online db \<longrightarrow>
        (survey_id \<in> set (map fst (get_user_allowed_surveys db user_id)) \<longleftrightarrow>
           holds_grant db user_id survey_id \<and> survey_id \<in> set (map s_survey_id (Surveys db))))"
  using visible_iff [where db = db and user_id = user_id and survey_id = survey_id]
    granted_iff [where db = db and user_id = user_id and survey_id = survey_id]
    dashboard_listing [where db = db and user_id = user_id and region = region
      and listing = listing]
    listing_ignores_grants [where db = db and grants = grants and user_id = user_id]
  by blast

text \<open>
  The sample employee sees survey 5 of its own governorate; its grant for survey 6 is
  listed by the second query only.
\<close>

theorem employee_visibility_witness:
  "online sample_db
   \<and> show_employee_dashboard sample_db 1 (Some 1) = SurveyList [(5, ''Weekly'')]
   \<and> visible sample_db 1 5
   \<and> get_allowed_surveys sample_db 1 = [(5, ''Weekly'')]
   \<and> get_user_allowed_surveys sample_db 1 = [(6, ''Other'')]"
  using employee_visibility [where db = sample_db and user_id = 1 and survey_id = 5
      and grants = "[]" and region = "Some 1" and listing = "[(5, ''Weekly'')]"]
  by (simp add: sample_db_def show_employee_dashboard_def get_employee_region_info_def
      get_allowed_surveys_def get_user_allowed_surveys_def visible_def)

text \<open>
  The rule as the claim states it fails in the sample store: survey 6 is active and
  granted to the employee, yet it is not visible.
\<close>

theorem employee_visibility_counterexample:
  "\<not> (visible sample_db 1 6 \<longleftrightarrow>
        survey_active sample_db 6
        \<and> (linked_to_governorate sample_db 1 6 \<or> holds_grant sample_db 1 6))"
  by (simp add: sample_db_def visible_def survey_active_def holds_grant_def
      get_allowed_surveys_def)

section \<open>Adding a governorate\<close>






section \<open>Editing an answer\<close>






section \<open>Required fields\<close>

lemma missing_label_listed:
  "(field_id, label, field_type, options, True, field_order) \<in> set flds \<Longrightarrow>
   \<not> truthy (answers_get answers field_id) \<Longrightarrow>
   label \<in> set (check_required_fields flds answers)"
  by (induction flds answers rule: check_required_fields.induct) auto

lemma listed_label_missing:
  "label \<in> set (check_required_fields flds answers) \<Longrightarrow>
   \<exists>field_id field_type options field_order.
     (field_id, label, field_type, options, True, field_order) \<in> set flds
     \<and> \<not> truthy (answers_get answers field_id)"
  by (induction flds answers rule: check_required_fields.induct) (auto split: if_splits)

lemma completed_rejected_when_missing:
  "check_required_fields flds answers \<noteq> [] \<Longrightarrow>
   process_survey_submission py_str db now save_online now_save
       session_user_id survey_id region_id flds answers True
     = (MissingRequiredFields (check_required_fields flds answers), db)"
  by (simp add: process_survey_submission_def)

text \<open>
  Claim C6. A completed submission in which a required field has an empty answer (the
  empty string, or none at all) is rejected with the labels of the missing fields, that
  field's label among them and every listed label that of a required field without a
  truthy answer; the store is unchanged, so no response and no response detail is
  created.
\<close>

theorem missing_required_rejected:
  assumes "(field_id, label, field_type, options, True, field_order) \<in> set flds"
    and "answers_get answers field_id = AText [] \<or> answers_get answers field_id = ANone"
  shows "process_survey_submission py_str db now save_online now_save
       session_user_id survey_id region_id flds
           answers True
           = (MissingRequiredFields (check_required_fields flds answers), db)
         \<and> label \<in> set (check_required_fields flds answers)
         \<and> Responses (snd (process_survey_submission py_str db now save_online now_save
       session_user_id survey_id
                              region_id flds answers True)) = Responses db
         \<and> Response_Details (snd (process_survey_submission py_str db now save_online now_save
       session_user_id
                              survey_id region_id flds answers True)) = Response_Details db
         \<and> (\<forall>l \<in> set (check_required_fields flds answers).
               \<exists>k t opts ord. (k, l, t, opts, True, ord) \<in> set flds
                                \<and> \<not> truthy (answers_get answers k))"
proof -
  from assms(2) have "\<not> truthy (answers_get answers field_id)" by auto
  from missing_label_listed [OF assms(1) this]
  have l: "label \<in> set (check_required_fields flds answers)" .
  then have "check_required_fields flds answers \<noteq> []" by auto
  from completed_rejected_when_missing [OF this]
  have p: "process_survey_submission py_str db now save_online now_save
       session_user_id survey_id region_id flds
           answers True
           = (MissingRequiredFields (check_required_fields flds answers), db)" .
  have all: "\<forall>l \<in> set (check_required_fields flds answers).
               \<exists>k t opts ord. (k, l, t, opts, True, ord) \<in> set flds
                                \<and> \<not> truthy (answers_get answers k)"
    using listed_label_missing by blast
  show ?thesis using l all by (simp add: p)
qed

text \<open>In the sample form, field A is required and left empty.\<close>

theorem missing_required_rejected_witness:
  "(10, ''A'', ''text'', None, True, 0) \<in> set sample_form
   \<and> answers_get [(10, AText ''''), (11, ABool True)] 10 = AText []
   \<and> process_survey_submission sample_str sample_db (101, 0) True (101, 1) 1 5 1
        sample_form
        [(10, AText ''''), (11, ABool True)] True
      = (MissingRequiredFields [''A''], sample_db)"
  using missing_required_rejected [where field_id = "10::nat" and label = "''A''"
      and field_type = "''text''" and options = None and field_order = "0::nat"
      and flds = sample_form and answers = "[(10, AText ''''), (11, ABool True)]"
      and py_str = sample_str and db = sample_db and now = "(101, 0)"
      and save_online = True and now_save = "(101, 1)"
      and session_user_id = 1 and survey_id = 5 and region_id = 1]
  by (simp add: sample_form_def answers_get_def)

text \<open>
  Claim C9. The presence check is Python truthiness: a required field whose answer is
  absent, \<^verbatim>\<open>None\<close>, the empty string, \<^verbatim>\<open>False\<close> or the number 0 is listed as
  missing and the completed submission is rejected, the store unchanged.
\<close>

theorem falsy_answers_count_as_missing:
  assumes "(field_id, label, field_type, options, True, field_order) \<in> set flds"
    and "map_of answers field_id = None
         \<or> map_of answers field_id = Some (AText [])
         \<or> map_of answers field_id = Some (ABool False)
         \<or> map_of answers field_id = Some (ANumber 0)
         \<or> map_of answers field_id = Some ANone"
  shows "label \<in> set (check_required_fields flds answers)
         \<and> process_survey_submission py_str db now save_online now_save
       session_user_id survey_id region_id flds
              answers True
            = (MissingRequiredFields (check_required_fields flds answers), db)"
proof -
  from assms(2) have "\<not> truthy (answers_get answers field_id)"
    by (auto simp: answers_get_def)
  from missing_label_listed [OF assms(1) this]
  have l: "label \<in> set (check_required_fields flds answers)" .
  then have "check_required_fields flds answers \<noteq> []" by auto
  from completed_rejected_when_missing [OF this] l show ?thesis by simp
qed

text \<open>
  In the sample form the required checkbox B, left unchecked, makes the submission fail;
  checked, nothing is missing.
\<close>

theorem falsy_answers_count_as_missing_witness:
  "(11, ''B'', ''checkbox'', None, True, 1) \<in> set sample_form
   \<and> map_of [(10, AText ''a''), (11, ABool False)] (11::nat) = Some (ABool False)
   \<and> process_survey_submission sample_str sample_db (101, 0) True (101, 1) 1 5 1
        sample_form
        [(10, AText ''a''), (11, ABool False)] True
      = (MissingRequiredFields [''B''], sample_db)
   \<and> check_required_fields sample_form [(10, AText ''a''), (11, ABool True)] = []"
  using falsy_answers_count_as_missing [where field_id = "11::nat" and label = "''B''"
      and field_type = "''checkbox''" and options = None and field_order = "1::nat"
      and flds = sample_form and answers = "[(10, AText ''a''), (11, ABool False)]"
      and py_str = sample_str and db = sample_db and now = "(101, 0)"
      and save_online = True and now_save = "(101, 1)"
      and session_user_id = 1 and survey_id = 5 and region_id = 1]
  by (simp add: sample_form_def answers_get_def)

section \<open>One completed response per day\<close>









section \<open>Deleting a survey\<close>

lemma delete_survey_online:
  "online db \<Longrightarrow> delete_survey db survey_id = (True, delete_survey_after 5 survey_id db)"
  by (simp add: delete_survey_def delete_survey_after_def delete_survey_statements_def)


lemma after_5_explicit:
  "delete_survey_after 5 survey_id db
   = db\<lparr>Response_Details :=
          filter (\<lambda>rd. rd_response_id rd \<notin>
                         set (map r_response_id
                                (filter (\<lambda>r. r_survey_id r = survey_id) (Responses db))))
                 (Response_Details db),
        Responses := filter (\<lambda>r. r_survey_id r \<noteq> survey_id) (Responses db),
        Survey_Fields := filter (\<lambda>f. sf_survey_id f \<noteq> survey_id) (Survey_Fields db),
        SurveyGovernorate := filter (\<lambda>sg. fst sg \<noteq> survey_id) (SurveyGovernorate db),
        Surveys := filter (\<lambda>s. s_survey_id s \<noteq> survey_id) (Surveys db)\<rparr>"
  by (simp add: delete_survey_after_def delete_survey_statements_def
      delete_response_details_of_def delete_responses_of_def delete_survey_fields_of_def
      delete_survey_governorates_of_def delete_survey_row_def)

lemma details_of_other_surveys_kept:
  assumes "distinct (map r_response_id (Responses db))"
    and "rd \<in> set (Response_Details db)" and "r \<in> set (Responses db)"
    and "r_response_id r = rd_response_id rd" and "r_survey_id r \<noteq> survey_id"
  shows "rd \<in> set (Response_Details (delete_survey_after 5 survey_id db))"
proof -
  have "rd_response_id rd \<notin>
          set (map r_response_id (filter (\<lambda>r. r_survey_id r = survey_id) (Responses db)))"
  proof
    assume "rd_response_id rd \<in>
          set (map r_response_id (filter (\<lambda>r. r_survey_id r = survey_id) (Responses db)))"
    then obtain r' where r': "r' \<in> set (Responses db)" "r_survey_id r' = survey_id"
      "r_response_id r' = rd_response_id rd" by auto
    with assms(3,4) have "r_response_id r' = r_response_id r" by simp
    with assms(1) r'(1) assms(3) have "r' = r"
      by (meson distinct_map inj_onD)
    with r'(2) assms(5) show False by simp
  qed
  with assms(2) show ?thesis by (simp add: after_5_explicit)
qed

text \<open>
  Claim C8. With the store reachable, \<^verbatim>\<open>delete_survey\<close> succeeds, and the state after
  each of its five statements differs from the state before it in one table: first the
  details of the survey's responses go, then its responses, then its fields, then its
  governorate links, then the survey row. In the end each of the five tables holds
  exactly its rows of the other surveys, in their order, and nothing else in the store
  has changed; when response ids are unique, every detail of a response of another
  survey is still there.
\<close>

theorem delete_survey_cascade:
  assumes "online db"
  shows "delete_survey db survey_id = (True, delete_survey_after 5 survey_id db)
   \<and> delete_survey_after 1 survey_id db
       = db\<lparr>Response_Details :=
              filter (\<lambda>rd. rd_response_id rd \<notin>
                         set (map r_response_id
                                (filter (\<lambda>r. r_survey_id r = survey_id) (Responses db))))
                     (Response_Details db)\<rparr>
   \<and> delete_survey_after 2 survey_id db
       = (delete_survey_after 1 survey_id db)
           \<lparr>Responses := filter (\<lambda>r. r_survey_id r \<noteq> survey_id) (Responses db)\<rparr>
   \<and> delete_survey_after 3 survey_id db
       = (delete_survey_after 2 survey_id db)
           \<lparr>Survey_Fields := filter (\<lambda>f. sf_survey_id f \<noteq> survey_id) (Survey_Fields db)\<rparr>
   \<and> delete_survey_after 4 survey_id db
       = (delete_survey_after 3 survey_id db)
           \<lparr>SurveyGovernorate := filter (\<lambda>sg. fst sg \<noteq> survey_id) (SurveyGovernorate db)\<rparr>
   \<and> delete_survey_after 5 survey_id db
       = (delete_survey_after 4 survey_id db)
           \<lparr>Surveys := filter (\<lambda>s. s_survey_id s \<noteq> survey_id) (Surveys db)\<rparr>
   \<and> delete_survey_after 5 survey_id db
       = db\<lparr>Response_Details :=
              filter (\<lambda>rd. rd_response_id rd \<notin>
                         set (map r_response_id
                                (filter (\<lambda>r. r_survey_id r = survey_id) (Responses db))))
                     (Response_Details db),
            Responses := filter (\<lambda>r. r_survey_id r \<noteq> survey_id) (Responses db),
            Survey_Fields := filter (\<lambda>f. sf_survey_id f \<noteq> survey_id) (Survey_Fields db),
            SurveyGovernorate := filter (\<lambda>sg. fst sg \<noteq> survey_id) (SurveyGovernorate db),
            Surveys := filter (\<lambda>s. s_survey_id s \<noteq> survey_id) (Surveys db)\<rparr>
   \<and> (distinct (map r_response_id (Responses db)) \<longrightarrow>
        (\<forall>rd \<in> set (Response_Details db). \<forall>r \<in> set (Responses db).
           r_response_id r = rd_response_id rd \<and> r_survey_id r \<noteq> survey_id \<longrightarrow>
           rd \<in> set (Response_Details (delete_survey_after 5 survey_id db))))"
proof -
  have s1: "delete_survey_after 1 survey_id db
       = db\<lparr>Response_Details :=
              filter (\<lambda>rd. rd_response_id rd \<notin>
                         set (map r_response_id
                                (filter (\<lambda>r. r_survey_id r = survey_id) (Responses db))))
                     (Response_Details db)\<rparr>"
    by (simp add: delete_survey_after_def delete_survey_statements_def
        delete_response_details_of_def delete_responses_of_def delete_survey_fields_of_def
        delete_survey_governorates_of_def delete_survey_row_def)
  have s2: "delete_survey_after 2 survey_id db
       = (delete_survey_after 1 survey_id db)
           \<lparr>Responses := filter (\<lambda>r. r_survey_id r \<noteq> survey_id) (Responses db)\<rparr>"
    by (simp add: delete_survey_after_def delete_survey_statements_def
        delete_response_details_of_def delete_responses_of_def delete_survey_fields_of_def
        delete_survey_governorates_of_def delete_survey_row_def)
  have s3: "delete_survey_after 3 survey_id db
       = (delete_survey_after 2 survey_id db)
           \<lparr>Survey_Fields := filter (\<lambda>f. sf_survey_id f \<noteq> survey_id) (Survey_Fields db)\<rparr>"
    by (simp add: delete_survey_after_def delete_survey_statements_def
        delete_response_details_of_def delete_responses_of_def delete_survey_fields_of_def
        delete_survey_governorates_of_def delete_survey_row_def)
  have s4: "delete_survey_after 4 survey_id db
       = (delete_survey_after 3 survey_id db)
           \<lparr>SurveyGovernorate := filter (\<lambda>sg. fst sg \<noteq> survey_id) (SurveyGovernorate db)\<rparr>"
    by (simp add: delete_survey_after_def delete_survey_statements_def
        delete_response_details_of_def delete_responses_of_def delete_survey_fields_of_def
        delete_survey_governorates_of_def delete_survey_row_def)
  have s5: "delete_survey_after 5 survey_id db
       = (delete_survey_after 4 survey_id db)
           \<lparr>Surveys := filter (\<lambda>s. s_survey_id s \<noteq> survey_id) (Surveys db)\<rparr>"
    by (simp add: delete_survey_after_def delete_survey_statements_def
        delete_response_details_of_def delete_responses_of_def delete_survey_fields_of_def
        delete_survey_governorates_of_def delete_survey_row_def)
  have frame: "distinct (map r_response_id (Responses db)) \<longrightarrow>
        (\<forall>rd \<in> set (Response_Details db). \<forall>r \<in> set (Responses db).
           r_response_id r = rd_response_id rd \<and> r_survey_id r \<noteq> survey_id \<longrightarrow>
           rd \<in> set (Response_Details (delete_survey_after 5 survey_id db)))"
    using details_of_other_surveys_kept by blast
  from delete_survey_online [OF assms] s1 s2 s3 s4 s5 after_5_explicit frame
  show ?thesis by blast
qed

text \<open>
  In the sample store, deleting survey 6 removes its row and its link and leaves all of
  survey 5; deleting survey 5 leaves survey 6 and no response, detail or field.
\<close>

theorem delete_survey_cascade_witness:
  "online sample_db
   \<and> distinct (map r_response_id (Responses sample_db))
   \<and> fst (delete_survey sample_db 6)
   \<and> map s_survey_id (Surveys (snd (delete_survey sample_db 6))) = [5]
   \<and> SurveyGovernorate (snd (delete_survey sample_db 6)) = [(5, 1)]
   \<and> Responses (snd (delete_survey sample_db 6)) = Responses sample_db
   \<and> Response_Details (snd (delete_survey sample_db 6)) = Response_Details sample_db
   \<and> Survey_Fields (snd (delete_survey sample_db 6)) = Survey_Fields sample_db
   \<and> map s_survey_id (Surveys (snd (delete_survey sample_db 5))) = [6]
   \<and> Responses (snd (delete_survey sample_db 5)) = []
   \<and> Response_Details (snd (delete_survey sample_db 5)) = []
   \<and> Survey_Fields (snd (delete_survey sample_db 5)) = []"
  using delete_survey_cascade [where db = sample_db and survey_id = 6]
    delete_survey_cascade [where db = sample_db and survey_id = 5]
  by (simp add: sample_db_def sample_fields_def)

section \<open>Reconciling the fields of a survey\<close>

lemma save_fields_frame:
  "online (save_fields sid i flds db) = online db
   \<and> Response_Details (save_fields sid i flds db) = Response_Details db
   \<and> Surveys (save_fields sid i flds db) = Surveys db"
proof (induction flds arbitrary: i db)
  case Nil
  show ?case by simp
next
  case (Cons field flds)
  show ?case
  proof (cases "fs_field_id field")
    case None
    then show ?thesis using Cons [of "Suc i"] by simp
  next
    case (Some k)
    then show ?thesis using Cons [of "Suc i"] by simp
  qed
qed

lemma updated_row_keys:
  "sf_field_id (updated_row field i f) = sf_field_id f"
  "sf_survey_id (updated_row field i f) = sf_survey_id f"
  by (simp_all add: updated_row_def)

lemma inserted_row_keys:
  "sf_field_id (inserted_row sid field i k) = k"
  "sf_survey_id (inserted_row sid field i k) = sid"
  "sf_field_order (inserted_row sid field i k) = i"
  by (simp_all add: inserted_row_def)

lemma updated_row_eq:
  "sf_field_id f = k \<Longrightarrow> sf_survey_id f = sid \<Longrightarrow>
   updated_row field i f = inserted_row sid field i k"
  by (simp add: updated_row_def inserted_row_def)


lemma update_keeps_ids:
  "map sf_field_id (map (\<lambda>f. if sf_field_id f = k then updated_row field i f else f) rows)
   = map sf_field_id rows"
  by (induction rows) (simp_all add: updated_row_keys)

lemma same_id_same_row:
  "distinct (map sf_field_id rows) \<Longrightarrow> f \<in> set rows \<Longrightarrow> g \<in> set rows \<Longrightarrow>
   sf_field_id f = sf_field_id g \<Longrightarrow> f = g"
  by (meson distinct_map inj_onD)

lemma update_image:
  assumes "distinct (map sf_field_id rows)" and "f0 \<in> set rows" and "sf_field_id f0 = k"
  shows "set (map (\<lambda>f. if sf_field_id f = k then updated_row field i f else f) rows)
         = insert (updated_row field i f0) {f \<in> set rows. sf_field_id f \<noteq> k}"
proof (rule set_eqI)
  fix x
  show "x \<in> set (map (\<lambda>f. if sf_field_id f = k then updated_row field i f else f) rows)
        \<longleftrightarrow> x \<in> insert (updated_row field i f0) {f \<in> set rows. sf_field_id f \<noteq> k}"
  proof
    assume "x \<in> set (map (\<lambda>f. if sf_field_id f = k then updated_row field i f else f) rows)"
    then obtain f where f: "f \<in> set rows"
      and x: "x = (if sf_field_id f = k then updated_row field i f else f)" by auto
    show "x \<in> insert (updated_row field i f0) {f \<in> set rows. sf_field_id f \<noteq> k}"
    proof (cases "sf_field_id f = k")
      case True
      with assms f have "f = f0" using same_id_same_row by blast
      with True x show ?thesis by simp
    next
      case False
      with f x show ?thesis by simp
    qed
  next
    assume "x \<in> insert (updated_row field i f0) {f \<in> set rows. sf_field_id f \<noteq> k}"
    then consider "x = updated_row field i f0" | "x \<in> set rows" "sf_field_id x \<noteq> k" by auto
    then show "x \<in> set (map (\<lambda>f. if sf_field_id f = k then updated_row field i f else f) rows)"
    proof cases
      case 1
      with assms(2,3) show ?thesis by (force simp: image_iff)
    next
      case 2
      then show ?thesis by (force simp: image_iff)
    qed
  qed
qed

lemma target_rows_orders:
  "(\<forall>r \<in> set (target_rows sid i n flds). i \<le> sf_field_order r)
   \<and> sorted (map sf_field_order (target_rows sid i n flds))
   \<and> distinct (map sf_field_order (target_rows sid i n flds))"
proof (induction flds arbitrary: i n)
  case Nil
  show ?case by simp
next
  case (Cons field flds)
  have ih: "(\<forall>r \<in> set (target_rows sid (Suc i) m flds). Suc i \<le> sf_field_order r)
   \<and> sorted (map sf_field_order (target_rows sid (Suc i) m flds))
   \<and> distinct (map sf_field_order (target_rows sid (Suc i) m flds))" for m
    using Cons [of "Suc i" m] .
  show ?case
  proof (cases "fs_field_id field")
    case None
    with ih [of "Suc n"] show ?thesis by (force simp: inserted_row_keys)
  next
    case (Some k)
    with ih [of n] show ?thesis by (force simp: inserted_row_keys)
  qed
qed

lemma written_options:
  "stored_options field
   = (case fs_field_options field of Some (opt # opts) \<Rightarrow> Some (opt # opts) | _ \<Rightarrow> None)"
  by (simp add: stored_options_def split: option.splits list.splits)

lemma written_required: "stored_required field = (fs_is_required field = Some True)"
  by (simp add: stored_required_def split: option.splits)

lemma tuple_of_inserted_row:
  "field_tuple_of (inserted_row sid field i k)
   = (k, fs_field_label field, fs_field_type field,
      (case fs_field_options field of Some (opt # opts) \<Rightarrow> Some (opt # opts) | _ \<Rightarrow> None),
      fs_is_required field = Some True, i)"
  by (simp add: field_tuple_of_def inserted_row_def written_options written_required)

lemma target_rows_listing:
  "map field_tuple_of (target_rows sid i n flds) = target_listing i n flds"
proof (induction flds arbitrary: i n)
  case Nil
  show ?case by simp
next
  case (Cons field flds)
  show ?case
    by (cases "fs_field_id field") (simp_all add: Cons tuple_of_inserted_row)
qed


lemma save_fields_rows:
  assumes "distinct (map sf_field_id (Survey_Fields db))"
    and "\<forall>f \<in> set (Survey_Fields db). sf_field_id f < next_field_id db"
    and "distinct (updated_field_ids flds)"
    and "set (updated_field_ids flds) \<subseteq> sf_field_id ` rows_of sid db"
  shows "rows_of sid (save_fields sid i flds db)
           = set (target_rows sid i (next_field_id db) flds)
             \<union> {f \<in> rows_of sid db. sf_field_id f \<notin> set (updated_field_ids flds)}
         \<and> distinct (map sf_field_id (Survey_Fields (save_fields sid i flds db)))"
  using assms
proof (induction flds arbitrary: i db)
  case Nil
  then show ?case by (auto simp: rows_of_def)
next
  case (Cons field flds)
  let ?n = "next_field_id db"
  show ?case
  proof (cases "fs_field_id field")
    case None
    let ?new = "inserted_row sid field i ?n"
    let ?db1 = "db\<lparr>Survey_Fields := Survey_Fields db @ [?new], next_field_id := Suc ?n\<rparr>"
    have step: "save_fields sid i (field # flds) db = save_fields sid (Suc i) flds ?db1"
      using None by simp
    have ids: "updated_field_ids (field # flds) = updated_field_ids flds"
      using None by simp
    have rows1: "rows_of sid ?db1 = insert ?new (rows_of sid db)"
      by (auto simp: rows_of_def inserted_row_keys)
    have d1: "distinct (map sf_field_id (Survey_Fields ?db1))"
      using Cons.prems(1,2) by (auto simp: inserted_row_keys)
    have b1: "\<forall>f \<in> set (Survey_Fields ?db1). sf_field_id f < next_field_id ?db1"
      using Cons.prems(2) by (auto simp: inserted_row_keys less_Suc_eq)
    have u1: "distinct (updated_field_ids flds)" using Cons.prems(3) ids by simp
    have s1: "set (updated_field_ids flds) \<subseteq> sf_field_id ` rows_of sid ?db1"
      using Cons.prems(4) ids rows1 by auto
    have fresh: "?n \<notin> set (updated_field_ids flds)"
    proof
      assume "?n \<in> set (updated_field_ids flds)"
      with Cons.prems(4) ids obtain f where "f \<in> rows_of sid db" "sf_field_id f = ?n" by auto
      with Cons.prems(2) show False by (auto simp: rows_of_def)
    qed
    from Cons.IH [OF d1 b1 u1 s1, of "Suc i"]
    have ih: "rows_of sid (save_fields sid (Suc i) flds ?db1)
           = set (target_rows sid (Suc i) (Suc ?n) flds)
             \<union> {f \<in> rows_of sid ?db1. sf_field_id f \<notin> set (updated_field_ids flds)}"
      and dist: "distinct (map sf_field_id (Survey_Fields (save_fields sid (Suc i) flds ?db1)))"
      by simp_all
    have "{f \<in> rows_of sid ?db1. sf_field_id f \<notin> set (updated_field_ids flds)}
          = insert ?new {f \<in> rows_of sid db. sf_field_id f \<notin> set (updated_field_ids flds)}"
      using fresh unfolding rows1 by (auto simp: inserted_row_keys)
    with ih dist show ?thesis unfolding step ids using None by auto
  next
    case (Some k)
    let ?g = "\<lambda>f. if sf_field_id f = k then updated_row field i f else f"
    let ?db1 = "db\<lparr>Survey_Fields := map ?g (Survey_Fields db)\<rparr>"
    have step: "save_fields sid i (field # flds) db = save_fields sid (Suc i) flds ?db1"
      using Some by simp
    have ids: "updated_field_ids (field # flds) = k # updated_field_ids flds"
      using Some by simp
    from Cons.prems(4) ids obtain f0 where f0: "f0 \<in> set (Survey_Fields db)"
      "sf_survey_id f0 = sid" "sf_field_id f0 = k"
      by (auto simp: rows_of_def)
    have img: "set (map ?g (Survey_Fields db))
               = insert (updated_row field i f0) {f \<in> set (Survey_Fields db). sf_field_id f \<noteq> k}"
      using update_image [OF Cons.prems(1) f0(1) f0(3)] .
    have new: "updated_row field i f0 = inserted_row sid field i k"
      using updated_row_eq [OF f0(3) f0(2)] .
    have rows1: "rows_of sid ?db1
                 = insert (inserted_row sid field i k) {f \<in> rows_of sid db. sf_field_id f \<noteq> k}"
      unfolding rows_of_def using img new by (auto simp: inserted_row_keys)
    have "Survey_Fields ?db1 = map ?g (Survey_Fields db)" by simp
    then have d1: "distinct (map sf_field_id (Survey_Fields ?db1))"
      using Cons.prems(1) by (simp only: update_keeps_ids)
    have b1: "\<forall>f \<in> set (Survey_Fields ?db1). sf_field_id f < next_field_id ?db1"
      using Cons.prems(2) by (auto simp: updated_row_keys)
    have u1: "distinct (updated_field_ids flds)" and knot: "k \<notin> set (updated_field_ids flds)"
      using Cons.prems(3) ids by simp_all
    have s1: "set (updated_field_ids flds) \<subseteq> sf_field_id ` rows_of sid ?db1"
    proof
      fix j assume j: "j \<in> set (updated_field_ids flds)"
      with knot have "j \<noteq> k" by auto
      from j Cons.prems(4) ids obtain f where "f \<in> rows_of sid db" "sf_field_id f = j" by auto
      with \<open>j \<noteq> k\<close> show "j \<in> sf_field_id ` rows_of sid ?db1"
        unfolding rows1 by (auto simp: image_iff)
    qed
    from Cons.IH [OF d1 b1 u1 s1, of "Suc i"]
    have ih: "rows_of sid (save_fields sid (Suc i) flds ?db1)
           = set (target_rows sid (Suc i) (next_field_id db) flds)
             \<union> {f \<in> rows_of sid ?db1. sf_field_id f \<notin> set (updated_field_ids flds)}"
      and dist: "distinct (map sf_field_id (Survey_Fields (save_fields sid (Suc i) flds ?db1)))"
      by simp_all
    have "{f \<in> rows_of sid ?db1. sf_field_id f \<notin> set (updated_field_ids flds)}
          = insert (inserted_row sid field i k)
              {f \<in> rows_of sid db. sf_field_id f \<notin> set (k # updated_field_ids flds)}"
      using knot unfolding rows1 by (auto simp: inserted_row_keys)
    with ih dist show ?thesis unfolding step ids using Some by auto
  qed
qed

lemma save_fields_ids:
  "set (map sf_field_id (Survey_Fields (save_fields sid i flds db)))
   \<subseteq> set (map sf_field_id (Survey_Fields db)) \<union> {k. next_field_id db \<le> k}"
proof (induction flds arbitrary: i db)
  case Nil
  show ?case by simp
next
  case (Cons field flds)
  show ?case
  proof (cases "fs_field_id field")
    case None
    let ?db1 = "db\<lparr>Survey_Fields := Survey_Fields db @
                  [inserted_row sid field i (next_field_id db)],
               next_field_id := Suc (next_field_id db)\<rparr>"
    have step: "save_fields sid i (field # flds) db = save_fields sid (Suc i) flds ?db1"
      using None by simp
    from Cons [of "Suc i" ?db1] show ?thesis
      unfolding step by (auto simp: inserted_row_keys)
  next
    case (Some k)
    let ?g = "\<lambda>f. if sf_field_id f = k then updated_row field i f else f"
    let ?db1 = "db\<lparr>Survey_Fields := map ?g (Survey_Fields db)\<rparr>"
    have step: "save_fields sid i (field # flds) db = save_fields sid (Suc i) flds ?db1"
      using Some by simp
    have "Survey_Fields ?db1 = map ?g (Survey_Fields db)" by simp
    then have "map sf_field_id (Survey_Fields ?db1) = map sf_field_id (Survey_Fields db)"
      by (simp only: update_keeps_ids)
    with Cons [of "Suc i" ?db1] show ?thesis
      unfolding step by simp
  qed
qed

lemma fields_to_delete_set:
  "set (filter (\<lambda>k. k \<notin> set ids)
          (map sf_field_id (filter (\<lambda>f. sf_survey_id f = sid) (Survey_Fields db))))
   = {k \<in> sf_field_id ` rows_of sid db. k \<notin> set ids}"
  by (auto simp: rows_of_def)

lemma update_survey_before_loop:
  assumes "update_survey db sid name active flds = (True, db')"
  obtains db2 where "db' = save_fields sid 0 flds db2" and "online db2"
    and "next_field_id db2 = next_field_id db"
    and "Response_Details db2 = Response_Details db"
    and "Survey_Fields db2
         = filter (\<lambda>f. sf_field_id f \<notin>
                          {k \<in> sf_field_id ` rows_of sid db. k \<notin> set (updated_field_ids flds)})
                  (Survey_Fields db)"
proof -
  let ?db1 = "db\<lparr>Surveys :=
                   map (\<lambda>s. if s_survey_id s = sid
                             then s\<lparr>s_survey_name := name, s_is_active := active\<rparr>
                             else s)
                       (Surveys db)\<rparr>"
  let ?del = "filter (\<lambda>k. k \<notin> set (updated_field_ids flds))
                (map sf_field_id (filter (\<lambda>f. sf_survey_id f = sid) (Survey_Fields db)))"
  let ?db2 = "if ?del \<noteq> []
              then ?db1\<lparr>Survey_Fields :=
                         filter (\<lambda>f. sf_field_id f \<notin> set ?del) (Survey_Fields db)\<rparr>
              else ?db1"
  from assms have on: "online db" and db': "db' = save_fields sid 0 flds ?db2"
    by (auto simp: update_survey_def Let_def split: if_splits)
  have del: "set ?del = {k \<in> sf_field_id ` rows_of sid db. k \<notin> set (updated_field_ids flds)}"
    by (rule fields_to_delete_set)
  have sf: "Survey_Fields ?db2 = filter (\<lambda>f. sf_field_id f \<notin> set ?del) (Survey_Fields db)"
  proof (cases "?del = []")
    case True
    then have "set ?del = {}" by simp
    then have "filter (\<lambda>f. sf_field_id f \<notin> set ?del) (Survey_Fields db) = Survey_Fields db"
      by simp
    with True show ?thesis by simp
  next
    case False
    then show ?thesis by simp
  qed
  have o2: "online ?db2" and n2: "next_field_id ?db2 = next_field_id db"
    and r2: "Response_Details ?db2 = Response_Details db"
    using on by simp_all
  have sf2: "Survey_Fields ?db2
         = filter (\<lambda>f. sf_field_id f \<notin>
                          {k \<in> sf_field_id ` rows_of sid db. k \<notin> set (updated_field_ids flds)})
                  (Survey_Fields db)"
    using sf unfolding del .
  from db' o2 n2 r2 sf2 show thesis by (rule that)
qed


lemma reconciled_listing:
  assumes upd: "update_survey db sid name active flds = (True, db')"
    and wf: "field_ids_wf db"
    and tgt: "target_ids_current db sid flds"
  shows "get_survey_fields db' sid = target_listing 0 (next_field_id db) flds"
proof -
  let ?D = "{k \<in> sf_field_id ` rows_of sid db. k \<notin> set (updated_field_ids flds)}"
  let ?n = "next_field_id db"
  from upd obtain db2 where db': "db' = save_fields sid 0 flds db2" and on: "online db2"
    and n2: "next_field_id db2 = ?n"
    and sf2: "Survey_Fields db2 = filter (\<lambda>f. sf_field_id f \<notin> ?D) (Survey_Fields db)"
    by (rule update_survey_before_loop)
  from wf have dist: "distinct (map sf_field_id (Survey_Fields db))"
    and bound: "\<forall>f \<in> set (Survey_Fields db). sf_field_id f < ?n"
    by (simp_all add: field_ids_wf_def list_all_iff)
  from tgt have du: "distinct (updated_field_ids flds)"
    and cur: "set (updated_field_ids flds) \<subseteq> sf_field_id ` rows_of sid db"
    by (auto simp: target_ids_current_def list_all_iff rows_of_def)
  have d2: "distinct (map sf_field_id (Survey_Fields db2))"
    unfolding sf2 using dist by (rule distinct_map_filter)
  have b2: "\<forall>f \<in> set (Survey_Fields db2). sf_field_id f < next_field_id db2"
    unfolding sf2 n2 using bound by simp
  have rows2: "rows_of sid db2 = {f \<in> rows_of sid db. sf_field_id f \<in> set (updated_field_ids flds)}"
    unfolding rows_of_def sf2 by auto
  have sub: "set (updated_field_ids flds) \<subseteq> sf_field_id ` rows_of sid db2"
    unfolding rows2 using cur by auto
  have left: "{f \<in> rows_of sid db2. sf_field_id f \<notin> set (updated_field_ids flds)} = {}"
    unfolding rows2 by auto
  let ?xs = "filter (\<lambda>f. sf_survey_id f = sid) (Survey_Fields db')"
  let ?ys = "target_rows sid 0 ?n flds"
  from save_fields_rows [OF d2 b2 du sub, of 0]
  have rows': "rows_of sid db' = set ?ys"
    and d': "distinct (map sf_field_id (Survey_Fields db'))"
    unfolding db' n2 left by simp_all
  have set_eq: "set ?xs = set ?ys"
    using rows' by (simp add: rows_of_def)
  from d' have "distinct (map sf_field_id ?xs)" by (rule distinct_map_filter)
  then have dx: "distinct ?xs" by (simp add: distinct_map)
  have sorted: "sorted (map sf_field_order ?ys)"
    and dorder: "distinct (map sf_field_order ?ys)"
    using target_rows_orders [of sid 0 ?n flds] by simp_all
  from dorder have dy: "distinct ?ys" by (simp add: distinct_map)
  have "mset ?xs = mset ?ys"
    by (rule iffD1 [OF set_eq_iff_mset_eq_distinct [OF dx dy] set_eq])
  moreover from dorder have "inj_on sf_field_order (set ?xs)"
    unfolding set_eq by (simp add: distinct_map)
  ultimately have "sort_key sf_field_order ?xs = ?ys"
    using sorted by (rule sort_key_inj_key_eq)
  moreover have "online db'"
    unfolding db' using on by (simp add: save_fields_frame)
  ultimately have "get_survey_fields db' sid = map field_tuple_of ?ys"
    by (simp add: get_survey_fields_def)
  then show ?thesis by (simp only: target_rows_listing)
qed

lemma omitted_field_gone:
  assumes upd: "update_survey db sid name active flds = (True, db')"
    and wf: "field_ids_wf db"
    and f: "f \<in> set (Survey_Fields db)" "sf_survey_id f = sid"
      "sf_field_id f \<notin> set (updated_field_ids flds)"
  shows "sf_field_id f \<notin> set (map sf_field_id (Survey_Fields db'))"
    and "Response_Details db' = Response_Details db"
proof -
  let ?D = "{k \<in> sf_field_id ` rows_of sid db. k \<notin> set (updated_field_ids flds)}"
  from upd obtain db2 where db': "db' = save_fields sid 0 flds db2"
    and n2: "next_field_id db2 = next_field_id db"
    and r2: "Response_Details db2 = Response_Details db"
    and sf2: "Survey_Fields db2 = filter (\<lambda>f. sf_field_id f \<notin> ?D) (Survey_Fields db)"
    by (rule update_survey_before_loop)
  from f have "sf_field_id f \<in> ?D" by (auto simp: rows_of_def)
  then have gone: "sf_field_id f \<notin> set (map sf_field_id (Survey_Fields db2))"
    unfolding sf2 by auto
  from wf f(1) have "sf_field_id f < next_field_id db2"
    unfolding n2 by (simp add: field_ids_wf_def list_all_iff)
  with gone save_fields_ids [of sid 0 flds db2]
  show "sf_field_id f \<notin> set (map sf_field_id (Survey_Fields db'))"
    unfolding db' by auto
  show "Response_Details db' = Response_Details db"
    unfolding db' using r2 by (simp add: save_fields_frame)
qed

lemma target_listing_nth:
  "i < length flds \<Longrightarrow>
   \<exists>fid. target_listing j n flds ! i
          = (fid, fs_field_label (flds ! i), fs_field_type (flds ! i),
             (case fs_field_options (flds ! i) of
                Some (opt # opts) \<Rightarrow> Some (opt # opts) | _ \<Rightarrow> None),
             fs_is_required (flds ! i) = Some True, j + i)
        \<and> (case fs_field_id (flds ! i) of Some k \<Rightarrow> fid = k | None \<Rightarrow> n \<le> fid)"
proof (induction flds arbitrary: i j n)
  case Nil
  then show ?case by simp
next
  case (Cons field flds)
  show ?case
  proof (cases i)
    case 0
    then show ?thesis by (cases "fs_field_id field") simp_all
  next
    case (Suc i')
    with Cons.prems have lt: "i' < length flds" by simp
    show ?thesis
    proof (cases "fs_field_id field")
      case None
      from Cons.IH [OF lt, of "Suc j" "Suc n"] None Suc show ?thesis
        by (auto split: option.splits)
    next
      case (Some k)
      from Cons.IH [OF lt, of "Suc j" n] Some Suc show ?thesis
        by (auto split: option.splits)
    qed
  qed
qed

lemma target_listing_length: "length (target_listing j n flds) = length flds"
  by (induction flds arbitrary: j n) (auto split: option.splits)


lemma listing_ids:
  "set (map fst (get_survey_fields db sid)) \<subseteq> set (map sf_field_id (Survey_Fields db))"
  by (auto simp: get_survey_fields_def field_tuple_of_def)

lemma update_survey_succeeds: "fst (update_survey db sid name active flds) = online db"
  by (simp add: update_survey_def Let_def)

text \<open>
  Claim C4, as amended. Let the store keep field ids unique with the sequence ahead of
  them, and let the ids carried by the target list be pairwise different ids of current
  fields of the survey. After \<^verbatim>\<open>update_survey\<close> has succeeded,
  \<^verbatim>\<open>get_survey_fields\<close> returns the entries of the target list, one tuple per entry and
  in the submitted order: the order index of each is its position counted from 0,
  whether the entry was an update or an insert; its label and type are those submitted,
  its options are the submitted list, or none when that is absent or empty, and it is
  required exactly when it was submitted as required; an entry carrying a field id keeps
  that id, an entry without one gets an id no field had before; and no field of the
  survey that the target list leaves out is listed any more.
\<close>

theorem reconcile_survey_fields:
  assumes "update_survey db sid name active flds = (True, db')"
    and "field_ids_wf db"
    and "target_ids_current db sid flds"
  shows "get_survey_fields db' sid = target_listing 0 (next_field_id db) flds
   \<and> length (get_survey_fields db' sid) = length flds
   \<and> (\<forall>i < length flds.
         \<exists>fid. get_survey_fields db' sid ! i
                 = (fid, fs_field_label (flds ! i), fs_field_type (flds ! i),
                    (case fs_field_options (flds ! i) of
                       Some (opt # opts) \<Rightarrow> Some (opt # opts) | _ \<Rightarrow> None),
                    fs_is_required (flds ! i) = Some True, i)
               \<and> (case fs_field_id (flds ! i) of
                      Some k \<Rightarrow> fid = k
                    | None \<Rightarrow> fid \<notin> set (map sf_field_id (Survey_Fields db))))
   \<and> (\<forall>f \<in> set (Survey_Fields db).
         sf_survey_id f = sid \<and> sf_field_id f \<notin> set (updated_field_ids flds) \<longrightarrow>
         sf_field_id f \<notin> set (map fst (get_survey_fields db' sid)))"
proof -
  have listing: "get_survey_fields db' sid = target_listing 0 (next_field_id db) flds"
    using assms by (rule reconciled_listing)
  have len: "length (get_survey_fields db' sid) = length flds"
    unfolding listing by (rule target_listing_length)
  from assms(2) have bound: "\<forall>f \<in> set (Survey_Fields db). sf_field_id f < next_field_id db"
    by (simp add: field_ids_wf_def list_all_iff)
  have nth: "\<exists>fid. get_survey_fields db' sid ! i
                 = (fid, fs_field_label (flds ! i), fs_field_type (flds ! i),
                    (case fs_field_options (flds ! i) of
                       Some (opt # opts) \<Rightarrow> Some (opt # opts) | _ \<Rightarrow> None),
                    fs_is_required (flds ! i) = Some True, i)
               \<and> (case fs_field_id (flds ! i) of
                      Some k \<Rightarrow> fid = k
                    | None \<Rightarrow> fid \<notin> set (map sf_field_id (Survey_Fields db)))"
    if "i < length flds" for i
  proof -
    from target_listing_nth [OF that, of 0 "next_field_id db"]
    obtain fid where eq: "target_listing 0 (next_field_id db) flds ! i
          = (fid, fs_field_label (flds ! i), fs_field_type (flds ! i),
             (case fs_field_options (flds ! i) of
                Some (opt # opts) \<Rightarrow> Some (opt # opts) | _ \<Rightarrow> None),
             fs_is_required (flds ! i) = Some True, i)"
      and id: "case fs_field_id (flds ! i) of Some k \<Rightarrow> fid = k
               | None \<Rightarrow> next_field_id db \<le> fid"
      by auto
    from id bound have "case fs_field_id (flds ! i) of
                      Some k \<Rightarrow> fid = k
                    | None \<Rightarrow> fid \<notin> set (map sf_field_id (Survey_Fields db))"
      by (auto split: option.splits)
    with eq show ?thesis unfolding listing by blast
  qed
  have gone: "sf_field_id f \<notin> set (map fst (get_survey_fields db' sid))"
    if "f \<in> set (Survey_Fields db)" "sf_survey_id f = sid"
      "sf_field_id f \<notin> set (updated_field_ids flds)" for f
    using omitted_field_gone(1) [OF assms(1,2) that] listing_ids [of db' sid] by blast
  from listing len nth gone show ?thesis by blast
qed

text \<open>
  In the sample store survey 5 has the required fields A (id 10) and B (id 11).
  Reconciling it with B first, relabelled and no longer required, a new required
  dropdown C second, and A third with an empty list of options and no required flag,
  lists B under its id 11 with order 0 and not required, C under the fresh id 12 with
  order 1, its options and required, and A under its id 10 with order 2, without
  options and not required.
\<close>

theorem reconcile_survey_fields_witness:
  "update_survey sample_db 5 ''Weekly'' True sample_reorder
     = (True, snd (update_survey sample_db 5 ''Weekly'' True sample_reorder))
   \<and> field_ids_wf sample_db
   \<and> target_ids_current sample_db 5 sample_reorder
   \<and> get_survey_fields sample_db 5
       = [(10, ''A'', ''text'', None, True, 0), (11, ''B'', ''checkbox'', None, True, 1)]
   \<and> get_survey_fields (snd (update_survey sample_db 5 ''Weekly'' True sample_reorder)) 5
       = [(11, ''B2'', ''checkbox'', None, False, 0),
          (12, ''C'', ''dropdown'', Some [''yes'', ''no''], True, 1),
          (10, ''A'', ''text'', None, False, 2)]"
proof -
  have h: "update_survey sample_db 5 ''Weekly'' True sample_reorder
     = (True, snd (update_survey sample_db 5 ''Weekly'' True sample_reorder))"
    by (simp add: update_survey_def Let_def sample_db_def)
  have wf: "field_ids_wf sample_db"
    by (simp add: field_ids_wf_def sample_db_def sample_fields_def)
  have tgt: "target_ids_current sample_db 5 sample_reorder"
    by (simp add: target_ids_current_def sample_db_def sample_fields_def sample_reorder_def)
  have before: "get_survey_fields sample_db 5
       = [(10, ''A'', ''text'', None, True, 0), (11, ''B'', ''checkbox'', None, True, 1)]"
    by (simp add: get_survey_fields_def sample_db_def sample_fields_def field_tuple_of_def)
  have n: "next_field_id sample_db = 12" by (simp add: sample_db_def)
  from reconcile_survey_fields [OF h wf tgt] h wf tgt before show ?thesis
    by (simp add: n sample_reorder_def)
qed

text \<open>
  The claim as stated, for every target list, fails in the sample store: for a target
  list whose only entry carries the id 99, which no field has, the reconciliation
  succeeds and the listing of survey 5 is empty, not the submitted entry.
\<close>

theorem reconcile_survey_fields_counterexample:
  "length sample_stale = 1
   \<and> updated_field_ids sample_stale = [99]
   \<and> map sf_field_id (Survey_Fields sample_db) = [10, 11]
   \<and> fst (update_survey sample_db 5 ''Weekly'' True sample_stale)
   \<and> get_survey_fields (snd (update_survey sample_db 5 ''Weekly'' True sample_stale)) 5 = []"
  by (simp add: update_survey_def Let_def sample_db_def sample_fields_def sample_stale_def
      get_survey_fields_def)

text \<open>
  Claim C5, as amended. \<^verbatim>\<open>update_survey\<close> has no check for answers that refer to a
  field and no parameter to confirm a deletion: it fails only when there is no
  connection. When it has succeeded, every field of the survey that the target list
  leaves out is deleted, referenced or not, and the statements leave the
  response details as they were.
\<close>

theorem omitted_fields_deleted:
  assumes "update_survey db sid name active flds = (True, db')"
    and "field_ids_wf db"
    and "f \<in> set (Survey_Fields db)" and "sf_survey_id f = sid"
    and "sf_field_id f \<notin> set (updated_field_ids flds)"
  shows "sf_field_id f \<notin> set (map sf_field_id (Survey_Fields db'))
   \<and> Response_Details db' = Response_Details db
   \<and> fst (update_survey db sid name active flds) = online db"
  using omitted_field_gone [OF assms] update_survey_succeeds by blast

text \<open>
  Field 10 of the sample store is referred to by a response detail and left out of
  the sample target list; after the reconciliation no field has the id 10.
\<close>

theorem omitted_fields_deleted_witness:
  "update_survey sample_db 5 ''Weekly'' True sample_target
     = (True, snd (update_survey sample_db 5 ''Weekly'' True sample_target))
   \<and> field_ids_wf sample_db
   \<and> \<lparr>sf_field_id = 10, sf_survey_id = 5, sf_field_label = ''A'', sf_field_type = ''text'',
       sf_field_options = None, sf_is_required = True, sf_field_order = 0\<rparr>
       \<in> set (Survey_Fields sample_db)
   \<and> 10 \<in> set (map rd_field_id (Response_Details sample_db))
   \<and> 10 \<notin> set (updated_field_ids sample_target)
   \<and> 10 \<notin> set (map sf_field_id
                    (Survey_Fields (snd (update_survey sample_db 5 ''Weekly'' True sample_target))))"
proof -
  let ?f = "\<lparr>sf_field_id = 10, sf_survey_id = 5, sf_field_label = ''A'', sf_field_type = ''text'',
       sf_field_options = None, sf_is_required = True, sf_field_order = 0\<rparr>"
  have h: "update_survey sample_db 5 ''Weekly'' True sample_target
     = (True, snd (update_survey sample_db 5 ''Weekly'' True sample_target))"
    by (simp add: update_survey_def Let_def sample_db_def)
  have wf: "field_ids_wf sample_db"
    by (simp add: field_ids_wf_def sample_db_def sample_fields_def)
  have f: "?f \<in> set (Survey_Fields sample_db)" "sf_survey_id ?f = 5"
    "sf_field_id ?f \<notin> set (updated_field_ids sample_target)"
    by (simp_all add: sample_db_def sample_fields_def sample_target_def)
  have r: "10 \<in> set (map rd_field_id (Response_Details sample_db))"
    by (simp add: sample_db_def)
  from omitted_fields_deleted [OF h wf f] h wf f r show ?thesis by simp
qed

text \<open>
  The claim as stated fails in the sample store: the target list leaves out field 10,
  which a response detail refers to; the reconciliation succeeds, the field is deleted,
  and the detail still refers to it.
\<close>

theorem field_in_use_counterexample:
  "map rd_field_id (Response_Details sample_db) = [10]
   \<and> map sf_field_id (Survey_Fields sample_db) = [10, 11]
   \<and> updated_field_ids sample_target = [11]
   \<and> fst (update_survey sample_db 5 ''Weekly'' True sample_target)
   \<and> map sf_field_id
         (Survey_Fields (snd (update_survey sample_db 5 ''Weekly'' True sample_target)))
       = [11, 12]
   \<and> map rd_field_id
         (Response_Details (snd (update_survey sample_db 5 ''Weekly'' True sample_target)))
       = [10]"
  by (simp add: update_survey_def Let_def sample_db_def sample_fields_def sample_target_def
      updated_row_def inserted_row_def)

end
